theory Spec2Isabelle
  imports Complex_Main "HOL-Library.AList"
begin

section \<open>The tax engine of \<^verbatim>\<open>irs_rules_engine.py\<close>\<close>

text \<open>
  A shallow embedding of the class \<^verbatim>\<open>IRSTaxEngine\<close>.

  Amounts are Python numbers in the source (ints in the tables, floats from the callers).
  Here an amount is a rational number: the decimal value the program means, without the
  representation error of a binary float. \<^verbatim>\<open>round(x, 2)\<close> is rounding to the cent, a tie
  going to the even cent as Python's \<^verbatim>\<open>round\<close> does. The \<^verbatim>\<open>print\<close> calls of the source
  do not change what is returned and are left out.
\<close>

subsection \<open>Rounding to the cent\<close>

definition round_half_even :: "rat \<Rightarrow> int" where
  "round_half_even x =
     (let f = \<lfloor>x\<rfloor>; d = x - of_int f
      in if d < 1 / 2 then f
         else if 1 / 2 < d then f + 1
         else if even f then f else f + 1)"

definition round2 :: "rat \<Rightarrow> rat" where
  "round2 x = of_int (round_half_even (x * 100)) / 100"

subsection \<open>The class constants\<close>

text \<open>
  \<^verbatim>\<open>float('inf')\<close> closes the last bracket, so the upper bound of a bracket is a
  rational or infinity.
\<close>

datatype bound = Fin rat | Inf

type_synonym bracket = "rat \<times> bound \<times> rat"

definition STANDARD_DEDUCTIONS :: "(string \<times> rat) list" where
  "STANDARD_DEDUCTIONS =
     [(''single'', 14600),
      (''married_joint'', 29200),
      (''head_of_household'', 21900),
      (''married_separate'', 14600),
      (''surviving_spouse'', 29200)]"

definition TAX_BRACKETS_HOH :: "bracket list" where
  "TAX_BRACKETS_HOH =
     [(0, Fin 11600, 0.10),
      (11600, Fin 47150, 0.12),
      (47150, Fin 100525, 0.22),
      (100525, Fin 191950, 0.24),
      (191950, Fin 243725, 0.32),
      (243725, Fin 609350, 0.35),
      (609350, Inf, 0.37)]"

definition CHILD_TAX_CREDIT :: rat where
  "CHILD_TAX_CREDIT = 2000"

definition ADDITIONAL_CHILD_TAX_CREDIT_MAX :: rat where
  "ADDITIONAL_CHILD_TAX_CREDIT_MAX = 1600"

record eitc_info =
  max_income :: rat
  max_credit :: rat

text \<open>The row of key 0, which is also the default of the lookup (\<^verbatim>\<open>EITC_2025[0]\<close>).\<close>

definition EITC_2025_0 :: eitc_info where
  "EITC_2025_0 = \<lparr>max_income = 17900, max_credit = 632\<rparr>"

definition EITC_2025 :: "(int \<times> eitc_info) list" where
  "EITC_2025 =
     [(0, EITC_2025_0),
      (1, \<lparr>max_income = 47900, max_credit = 4257\<rparr>),
      (2, \<lparr>max_income = 53900, max_credit = 7043\<rparr>),
      (3, \<lparr>max_income = 57900, max_credit = 7931\<rparr>)]"

subsection \<open>The engine, its input and its result\<close>

text \<open>
  The engine object holds the filing status, set by the caller before the call;
  \<^verbatim>\<open>__init__\<close> sets it to \<^verbatim>\<open>"single"\<close>.
\<close>

record IRSTaxEngine =
  filing_status :: string

definition init :: IRSTaxEngine where
  "init = \<lparr>filing_status = ''single''\<rparr>"

text \<open>
  \<^verbatim>\<open>extracted_data\<close> is a dictionary; the engine reads it with \<^verbatim>\<open>.get(key, 0)\<close>, so a
  key may be absent (\<open>None\<close>) and then counts as 0. Only the numeric keys of the callers'
  dictionaries are kept: the engine never looks at the name, the SSN or the
  \<^verbatim>\<open>"filing_status"\<close> entry.
\<close>

record extracted_data =
  wages :: "rat option"
  federal_tax_withheld :: "rat option"
  dependent_count :: "int option"
  interest_income :: "rat option"
  dividends :: "rat option"
  daycare_expenses :: "rat option"

definition get_or :: "'a option \<Rightarrow> 'a \<Rightarrow> 'a" where
  "get_or v dflt = (case v of None \<Rightarrow> dflt | Some x \<Rightarrow> x)"

record tax_result =
  total_income :: rat
  agi :: rat
  standard_deduction :: rat
  taxable_income :: rat
  tax_amount :: rat
  total_credits :: rat
  total_tax :: rat
  total_payments :: rat
  refund :: rat
  amount_owed :: rat
  form_1040_lines :: "(string \<times> rat) list"
  result_filing_status :: string

subsection \<open>\<^verbatim>\<open>_calculate_tax_brackets\<close>\<close>

text \<open>
  The loop over the brackets, with its two variables \<^verbatim>\<open>tax\<close> and \<^verbatim>\<open>prev_bracket\<close>; the
  \<^verbatim>\<open>else: break\<close> branch returns what has been added up so far. \<^verbatim>\<open>prev_bracket\<close> takes
  the upper bound of the bracket just used, so it can be infinite. Then
  \<^verbatim>\<open>max(bracket_min, prev_bracket)\<close> is infinite and the float that the source goes on
  with is infinite or not a number: the model has no amount for it and answers \<open>None\<close>.
\<close>

definition min_bound :: "rat \<Rightarrow> bound \<Rightarrow> rat" where
  "min_bound income bracket_max =
     (case bracket_max of Fin m \<Rightarrow> min income m | Inf \<Rightarrow> income)"

fun brackets_loop :: "rat \<Rightarrow> bracket list \<Rightarrow> rat \<Rightarrow> bound \<Rightarrow> rat option" where
  "brackets_loop income [] tax prev_bracket = Some tax"
| "brackets_loop income ((bracket_min, bracket_max, rate) # brackets) tax prev_bracket =
     (if income > bracket_min then
        (case prev_bracket of
           Inf \<Rightarrow> None
         | Fin prev \<Rightarrow>
             brackets_loop income brackets
               (tax + (min_bound income bracket_max - max bracket_min prev) * rate)
               bracket_max)
      else Some tax)"

definition calculate_tax_brackets :: "rat \<Rightarrow> bracket list \<Rightarrow> rat option" where
  "calculate_tax_brackets income brackets =
     map_option round2 (brackets_loop income brackets 0 (Fin 0))"

subsection \<open>\<^verbatim>\<open>_calculate_eitc\<close>\<close>

definition calculate_eitc :: "rat \<Rightarrow> int \<Rightarrow> rat" where
  "calculate_eitc wages0 dependents0 =
     (let dependents = (if dependents0 > 3 then 3 else dependents0);
          info = (case map_of EITC_2025 dependents of
                    Some i \<Rightarrow> i
                  | None \<Rightarrow> EITC_2025_0)
      in if wages0 \<le> max_income info then max_credit info
         else
           (let excess = wages0 - max_income info;
                phaseout_rate = (if dependents > 0 then 0.1598 else 0.0765);
                credit = max 0 (max_credit info - excess * phaseout_rate)
            in round2 credit))"

subsection \<open>\<^verbatim>\<open>calculate_tax\<close>\<close>

text \<open>Step 1 (line 54): the standard deduction, 14600 for a status that is not in the table.\<close>

definition deduction :: "string \<Rightarrow> rat" where
  "deduction status = get_or (map_of STANDARD_DEDUCTIONS status) 14600"

text \<open>Step 4 (lines 71 to 78): the child tax credit and its two parts.\<close>

definition total_child_credit :: "int \<Rightarrow> rat" where
  "total_child_credit dependents = CHILD_TAX_CREDIT * of_int dependents"

definition nonrefundable_child_credit :: "rat \<Rightarrow> int \<Rightarrow> rat" where
  "nonrefundable_child_credit tax dependents = min (total_child_credit dependents) tax"

definition remaining_child_credit :: "rat \<Rightarrow> int \<Rightarrow> rat" where
  "remaining_child_credit tax dependents =
     total_child_credit dependents - nonrefundable_child_credit tax dependents"

definition additional_child_credit :: "rat \<Rightarrow> int \<Rightarrow> rat" where
  "additional_child_credit tax dependents =
     min (remaining_child_credit tax dependents)
         (ADDITIONAL_CHILD_TAX_CREDIT_MAX * of_int dependents)"

text \<open>
  Step 6 (lines 96 to 106): the refund and the amount owed, as the pair
  \<open>(refund, amount_owed)\<close>.
\<close>

definition refund_and_owed :: "rat \<Rightarrow> rat \<Rightarrow> rat \<times> rat" where
  "refund_and_owed tax_after_all total_refundable_credits =
     (if tax_after_all = 0 then (total_refundable_credits, 0)
      else (max 0 (total_refundable_credits - tax_after_all),
            max 0 (tax_after_all - total_refundable_credits)))"

text \<open>
  The whole method. Both branches of the test on the filing status (lines 62 to 65) are
  kept as they are written. The dictionary \<^verbatim>\<open>form_lines\<close> is an association list in
  the order of insertion; the two assignments after the literal are updates, and
  \<^verbatim>\<open>form_lines["31"]\<close> reads a key of the literal. The local variable \<^verbatim>\<open>wages\<close> is \<open>w\<close>
  here, \<^verbatim>\<open>deduction\<close> is \<open>ded\<close> and \<^verbatim>\<open>taxable_income\<close> is \<open>taxable\<close>, since the names are
  taken by the keys of the input and of the result.

  The method raises nothing. Its value is \<open>None\<close> only where the bracket tax is no amount,
  which does not happen on \<open>TAX_BRACKETS_HOH\<close> (lemma \<open>hoh_tax_total\<close> below); every
  statement about the method says that it returns a result.
\<close>

definition calculate_tax :: "IRSTaxEngine \<Rightarrow> extracted_data \<Rightarrow> tax_result option" where
  "calculate_tax self d =
     (let w = get_or (wages d) 0;
          federal_withheld = get_or (federal_tax_withheld d) 0;
          dependents = get_or (dependent_count d) 0;
          ded = deduction (filing_status self);
          taxable = max 0 (w - ded)
      in case (if filing_status self = ''head_of_household''
               then calculate_tax_brackets taxable TAX_BRACKETS_HOH
               else calculate_tax_brackets taxable TAX_BRACKETS_HOH) of
           None \<Rightarrow> None
         | Some tax \<Rightarrow>
            (let nonrefundable = nonrefundable_child_credit tax dependents;
                 additional = additional_child_credit tax dependents;
                 eitc = calculate_eitc w dependents;
                 tax_after_nonrefundable = tax - nonrefundable;
                 tax_after_all = max 0 tax_after_nonrefundable;
                 total_refundable_credits = additional + eitc + federal_withheld;
                 (rfnd, owed) = refund_and_owed tax_after_all total_refundable_credits;
                 form_lines0 =
                   [(''1'', round2 w),
                    (''2b'', round2 (get_or (interest_income d) 0)),
                    (''3b'', round2 (get_or (dividends d) 0)),
                    (''7'', round2 w),
                    (''11'', round2 w),
                    (''12'', round2 ded),
                    (''15'', round2 taxable),
                    (''16'', round2 tax),
                    (''19'', round2 nonrefundable),
                    (''27'', round2 eitc),
                    (''28'', round2 additional),
                    (''24'', round2 tax_after_all),
                    (''25a'', round2 federal_withheld),
                    (''31'', round2 (federal_withheld + additional + eitc))];
                 form_lines =
                   (if rfnd > 0
                    then AList.update ''37'' 0 (AList.update ''34'' (round2 rfnd) form_lines0)
                    else AList.update ''37'' (round2 owed) (AList.update ''34'' 0 form_lines0))
             in Some \<lparr>total_income = w,
                      agi = w,
                      standard_deduction = ded,
                      taxable_income = taxable,
                      tax_amount = tax,
                      total_credits = total_child_credit dependents + eitc,
                      total_tax = tax_after_all,
                      total_payments = get_or (map_of form_lines ''31'') 0,
                      refund = rfnd,
                      amount_owed = owed,
                      form_1040_lines = form_lines,
                      result_filing_status = filing_status self\<rparr>))"

subsection \<open>Auxiliary notions for the proofs\<close>

text \<open>
  A bracket table is contiguous from \<open>p\<close> when its first bracket starts at \<open>p\<close>, every
  bracket starts where the one before it ends, no rate is negative, and only the last
  bracket is unbounded.
\<close>

fun contiguous :: "rat \<Rightarrow> bracket list \<Rightarrow> bool" where
  "contiguous p [] = True"
| "contiguous p ((bracket_min, Fin m, rate) # brackets) =
     (bracket_min = p \<and> p \<le> m \<and> 0 \<le> rate \<and> contiguous m brackets)"
| "contiguous p ((bracket_min, Inf, rate) # brackets) =
     (bracket_min = p \<and> 0 \<le> rate \<and> brackets = [])"

text \<open>The profile of the end-to-end scenario, and the engine set to head of household.\<close>

definition whitney :: extracted_data where
  "whitney =
     \<lparr>wages = Some 26263.00,
      federal_tax_withheld = Some 264.00,
      dependent_count = Some 1,
      interest_income = Some 0,
      dividends = Some 0,
      daycare_expenses = Some 0\<rparr>"

definition hoh_engine :: IRSTaxEngine where
  "hoh_engine = \<lparr>filing_status = ''head_of_household''\<rparr>"



definition whitney_daycare :: extracted_data where
  "whitney_daycare = whitney\<lparr>daycare_expenses := Some 3100.00\<rparr>"


section \<open>Properties\<close>

subsection \<open>Rounding\<close>

lemma round_half_even_bounds:
  "\<lfloor>x\<rfloor> \<le> round_half_even x \<and> round_half_even x \<le> \<lfloor>x\<rfloor> + 1"
  by (simp add: round_half_even_def Let_def)

lemma round_half_even_mono:
  assumes "x \<le> y"
  shows "round_half_even x \<le> round_half_even y"
proof (cases "\<lfloor>x\<rfloor> = \<lfloor>y\<rfloor>")
  case True
  with assms show ?thesis
    by (auto simp: round_half_even_def Let_def)
next
  case False
  with assms have "\<lfloor>x\<rfloor> + 1 \<le> \<lfloor>y\<rfloor>"
    using floor_mono [of x y] by linarith
  with round_half_even_bounds [of x] round_half_even_bounds [of y] show ?thesis
    by linarith
qed

lemma round2_mono: "x \<le> y \<Longrightarrow> round2 x \<le> round2 y"
  using round_half_even_mono [of "x * 100" "y * 100"]
  by (simp add: round2_def divide_le_cancel)

lemma round2_zero: "round2 0 = 0"
  by (simp add: round2_def round_half_even_def)

lemma round2_nonneg: "0 \<le> x \<Longrightarrow> 0 \<le> round2 x"
  using round2_mono [of 0 x] by (simp add: round2_zero)

subsection \<open>The bracket loop on a contiguous table\<close>

text \<open>The loop ends with an amount, and never below the amount it started from.\<close>

lemma brackets_loop_total:
  "contiguous p bs \<Longrightarrow> \<exists>t. brackets_loop x bs a (Fin p) = Some t \<and> a \<le> t"
proof (induction p bs arbitrary: a rule: contiguous.induct)
  case (1 p)
  show ?case by simp
next
  case (2 p bracket_min m rate brackets)
  then have c: "contiguous m brackets" and r: "0 \<le> rate" and pm: "p \<le> m"
    and eq: "bracket_min = p"
    by simp_all
  show ?case
  proof (cases "x > p")
    case True
    let ?c = "(min x m - p) * rate"
    have "0 \<le> ?c" using True pm r by (simp add: min_def)
    moreover obtain t where "brackets_loop x brackets (a + ?c) (Fin m) = Some t" "a + ?c \<le> t"
      using "2.IH" [OF c, of "a + ?c"] by blast
    ultimately show ?thesis using True eq by (simp add: min_bound_def)
  next
    case False
    then show ?thesis using eq by simp
  qed
next
  case (3 p bracket_min rate brackets)
  then show ?case by (simp add: min_bound_def)
qed

text \<open>What the loop adds to its starting amount grows with the income.\<close>

lemma brackets_loop_mono:
  "contiguous p bs \<Longrightarrow> x \<le> y \<Longrightarrow> brackets_loop x bs a (Fin p) = Some s \<Longrightarrow>
   brackets_loop y bs b (Fin p) = Some t \<Longrightarrow> s - a \<le> t - b"
proof (induction p bs arbitrary: a b rule: contiguous.induct)
  case (1 p)
  then show ?case by simp
next
  case (2 p bracket_min m rate brackets)
  then have c: "contiguous m brackets" and r: "0 \<le> rate" and pm: "p \<le> m"
    and eq: "bracket_min = p"
    by simp_all
  let ?cx = "(min x m - p) * rate"
  let ?cy = "(min y m - p) * rate"
  show ?case
  proof (cases "x > p")
    case True
    with \<open>x \<le> y\<close> have yp: "y > p" by simp
    have sx: "brackets_loop x brackets (a + ?cx) (Fin m) = Some s"
      using "2.prems"(3) True eq by (simp add: min_bound_def)
    have ty: "brackets_loop y brackets (b + ?cy) (Fin m) = Some t"
      using "2.prems"(4) yp eq by (simp add: min_bound_def)
    have "s - (a + ?cx) \<le> t - (b + ?cy)"
      using "2.IH" [OF c \<open>x \<le> y\<close> sx ty] .
    moreover have "?cx \<le> ?cy"
      using \<open>x \<le> y\<close> r by (intro mult_right_mono) (simp_all add: min_def)
    ultimately show ?thesis by linarith
  next
    case False
    then have sa: "s = a" using "2.prems"(3) eq by simp
    show ?thesis
    proof (cases "y > p")
      case True
      then have ty: "brackets_loop y brackets (b + ?cy) (Fin m) = Some t"
        using "2.prems"(4) eq by (simp add: min_bound_def)
      have "0 \<le> ?cy" using True pm r by (simp add: min_def)
      moreover have "b + ?cy \<le> t"
        using brackets_loop_total [OF c, of y "b + ?cy"] ty by simp
      ultimately show ?thesis using sa by linarith
    next
      case False
      then show ?thesis using sa "2.prems"(4) eq by simp
    qed
  qed
next
  case (3 p bracket_min rate brackets)
  then have r: "0 \<le> rate" and eq: "bracket_min = p" and e: "brackets = []"
    by simp_all
  have "(if p < x then (x - p) * rate else 0) \<le> (if p < y then (y - p) * rate else 0)"
    using \<open>x \<le> y\<close> r by (auto intro: mult_right_mono)
  then show ?case using "3.prems"(3,4) eq e
    by (auto simp: min_bound_def split: if_splits)
qed

lemma contiguous_HOH: "contiguous 0 TAX_BRACKETS_HOH"
  by (simp add: TAX_BRACKETS_HOH_def)

lemma hoh_tax_total:
  "\<exists>t. calculate_tax_brackets x TAX_BRACKETS_HOH = Some t \<and> 0 \<le> t"
proof -
  obtain r where "brackets_loop x TAX_BRACKETS_HOH 0 (Fin 0) = Some r" "0 \<le> r"
    using brackets_loop_total [OF contiguous_HOH, of x 0] by blast
  then show ?thesis
    by (simp add: calculate_tax_brackets_def round2_nonneg)
qed

lemma hoh_tax_mono:
  assumes "x \<le> y"
    and "calculate_tax_brackets x TAX_BRACKETS_HOH = Some s"
    and "calculate_tax_brackets y TAX_BRACKETS_HOH = Some t"
  shows "s \<le> t"
proof -
  from assms(2) obtain s' where
    s': "brackets_loop x TAX_BRACKETS_HOH 0 (Fin 0) = Some s'" "s = round2 s'"
    by (auto simp: calculate_tax_brackets_def)
  from assms(3) obtain t' where
    t': "brackets_loop y TAX_BRACKETS_HOH 0 (Fin 0) = Some t'" "t = round2 t'"
    by (auto simp: calculate_tax_brackets_def)
  have "s' \<le> t'"
    using brackets_loop_mono [OF contiguous_HOH assms(1) s'(1) t'(1)] by simp
  then show ?thesis using s'(2) t'(2) by (simp add: round2_mono)
qed

subsection \<open>The end-to-end scenario\<close>

text \<open>
  Claim C1. For head of household, wages 26263.00, 264.00 withheld, one dependent and
  every other amount 0, \<open>calculate_tax\<close> returns the standard deduction 21900.00, the
  taxable income 4363.00, the tax before credits 436.30, no tax after the non-refundable
  credit, the refund 6084.70 and nothing owed; on the way the non-refundable child credit
  is 436.30, the additional child credit 1563.70 and the earned income credit 4257.00
  (lines 19, 28 and 27 of the form).
\<close>

theorem whitney_scenario:
  "calculate_tax hoh_engine whitney =
     Some \<lparr>total_income = 26263.00,
           agi = 26263.00,
           standard_deduction = 21900.00,
           taxable_income = 4363.00,
           tax_amount = 436.30,
           total_credits = 6257.00,
           total_tax = 0.00,
           total_payments = 6084.70,
           refund = 6084.70,
           amount_owed = 0.00,
           form_1040_lines =
             [(''1'', 26263.00), (''2b'', 0), (''3b'', 0), (''7'', 26263.00),
              (''11'', 26263.00), (''12'', 21900.00), (''15'', 4363.00), (''16'', 436.30),
              (''19'', 436.30), (''27'', 4257.00), (''28'', 1563.70), (''24'', 0.00),
              (''25a'', 264.00), (''31'', 6084.70), (''34'', 6084.70), (''37'', 0)],
           result_filing_status = ''head_of_household''\<rparr>
   \<and> nonrefundable_child_credit 436.30 1 = 436.30
   \<and> remaining_child_credit 436.30 1 = 1563.70
   \<and> additional_child_credit 436.30 1 = 1563.70
   \<and> calculate_eitc 26263.00 1 = 4257.00"
  by code_simp

subsection \<open>The bracket tax of the fixed schedule\<close>

text \<open>
  Claim C5. On the fixed schedule \<open>TAX_BRACKETS_HOH\<close> the bracket tax is defined for
  every income, and for incomes \<open>0 \<le> x \<le> y\<close> it is non-negative and the tax of \<open>x\<close> is at most
  the tax of \<open>y\<close>.
\<close>

theorem bracket_tax_monotone:
  assumes "0 \<le> x" and "x \<le> y"
  shows "\<exists>s t. calculate_tax_brackets x TAX_BRACKETS_HOH = Some s
           \<and> calculate_tax_brackets y TAX_BRACKETS_HOH = Some t
           \<and> 0 \<le> s \<and> s \<le> t"
proof -
  obtain s where s: "calculate_tax_brackets x TAX_BRACKETS_HOH = Some s" "0 \<le> s"
    using hoh_tax_total [of x] by blast
  obtain t where t: "calculate_tax_brackets y TAX_BRACKETS_HOH = Some t"
    using hoh_tax_total [of y] by blast
  have "s \<le> t" using hoh_tax_mono [OF assms(2) s(1) t] .
  with s t show ?thesis by simp
qed

lemma bracket_tax_11600: "calculate_tax_brackets 11600 TAX_BRACKETS_HOH = Some 1160"
  by code_simp

lemma bracket_tax_50000: "calculate_tax_brackets 50000 TAX_BRACKETS_HOH = Some 6053"
  by code_simp

theorem bracket_tax_monotone_witness:
  "(0::rat) \<le> 11600 \<and> (11600::rat) \<le> 50000
   \<and> calculate_tax_brackets 11600 TAX_BRACKETS_HOH = Some 1160
   \<and> calculate_tax_brackets 50000 TAX_BRACKETS_HOH = Some 6053
   \<and> (0::rat) \<le> 1160 \<and> (1160::rat) \<le> 6053"
  using bracket_tax_monotone [of 11600 50000]
  by (simp add: bracket_tax_11600 bracket_tax_50000)

subsection \<open>The method as a whole\<close>

lemma get_or_Some: "get_or (Some x) dflt = x"
  by (simp add: get_or_def)

lemma get_or_None: "get_or None dflt = dflt"
  by (simp add: get_or_def)

text \<open>
  The method written out once the bracket tax of the taxable income is known: the two
  insertions into \<^verbatim>\<open>form_lines\<close> add the keys 34 and 37 at the end.
\<close>

lemma calculate_tax_unfold:
  fixes self :: IRSTaxEngine and d :: extracted_data and tax :: rat
  defines "w \<equiv> get_or (wages d) 0"
    and "withheld \<equiv> get_or (federal_tax_withheld d) 0"
    and "deps \<equiv> get_or (dependent_count d) 0"
    and "ded \<equiv> deduction (filing_status self)"
  defines "taxable \<equiv> max 0 (w - ded)"
    and "nonref \<equiv> nonrefundable_child_credit tax deps"
    and "addl \<equiv> additional_child_credit tax deps"
    and "eitc \<equiv> calculate_eitc w deps"
  defines "ro \<equiv> refund_and_owed (max 0 (tax - nonref)) (addl + eitc + withheld)"
  assumes "calculate_tax_brackets taxable TAX_BRACKETS_HOH = Some tax"
  shows "calculate_tax self d =
     Some \<lparr>total_income = w,
           agi = w,
           standard_deduction = ded,
           taxable_income = taxable,
           tax_amount = tax,
           total_credits = total_child_credit deps + eitc,
           total_tax = max 0 (tax - nonref),
           total_payments = round2 (withheld + addl + eitc),
           refund = fst ro,
           amount_owed = snd ro,
           form_1040_lines =
             [(''1'', round2 w),
              (''2b'', round2 (get_or (interest_income d) 0)),
              (''3b'', round2 (get_or (dividends d) 0)),
              (''7'', round2 w),
              (''11'', round2 w),
              (''12'', round2 ded),
              (''15'', round2 taxable),
              (''16'', round2 tax),
              (''19'', round2 nonref),
              (''27'', round2 eitc),
              (''28'', round2 addl),
              (''24'', round2 (max 0 (tax - nonref))),
              (''25a'', round2 withheld),
              (''31'', round2 (withheld + addl + eitc)),
              (''34'', if fst ro > 0 then round2 (fst ro) else 0),
              (''37'', if fst ro > 0 then 0 else round2 (snd ro))],
           result_filing_status = filing_status self\<rparr>"
  using assms
  by (simp add: calculate_tax_def Let_def case_prod_beta get_or_Some)

lemma taxable_tax_exists:
  "\<exists>tax. calculate_tax_brackets (max 0 (get_or (wages d) 0 - deduction (filing_status self)))
       TAX_BRACKETS_HOH = Some tax \<and> 0 \<le> tax"
  by (rule hoh_tax_total)

lemma refund_and_owed_exclusive:
  "fst (refund_and_owed a b) = 0 \<or> snd (refund_and_owed a b) = 0"
  by (auto simp: refund_and_owed_def max_def)

lemma refund_and_owed_nonneg:
  "0 \<le> a \<Longrightarrow> 0 \<le> b \<Longrightarrow> 0 \<le> fst (refund_and_owed a b) \<and> 0 \<le> snd (refund_and_owed a b)"
  by (simp add: refund_and_owed_def)

lemma total_child_credit_nonneg: "0 \<le> n \<Longrightarrow> 0 \<le> total_child_credit n"
  by (simp add: total_child_credit_def CHILD_TAX_CREDIT_def)

lemma nonrefundable_nonneg: "0 \<le> tax \<Longrightarrow> 0 \<le> n \<Longrightarrow> 0 \<le> nonrefundable_child_credit tax n"
  by (simp add: nonrefundable_child_credit_def total_child_credit_nonneg)

lemma additional_nonneg: "0 \<le> n \<Longrightarrow> 0 \<le> additional_child_credit tax n"
  by (simp add: additional_child_credit_def remaining_child_credit_def
      nonrefundable_child_credit_def ADDITIONAL_CHILD_TAX_CREDIT_MAX_def)

lemma deduction_nonneg: "0 \<le> deduction status"
  by (simp add: deduction_def STANDARD_DEDUCTIONS_def get_or_def)

lemma eitc_info_cases:
  "(case map_of EITC_2025 (if n > 3 then 3 else n) of Some i \<Rightarrow> i | None \<Rightarrow> EITC_2025_0)
     \<in> {\<lparr>max_income = 17900, max_credit = 632\<rparr>, \<lparr>max_income = 47900, max_credit = 4257\<rparr>,
         \<lparr>max_income = 53900, max_credit = 7043\<rparr>, \<lparr>max_income = 57900, max_credit = 7931\<rparr>}"
  by (simp add: EITC_2025_def EITC_2025_0_def)

lemma calculate_eitc_nonneg: "0 \<le> calculate_eitc w n"
  using eitc_info_cases [of n]
  by (auto simp: calculate_eitc_def Let_def round2_nonneg)


subsection \<open>Refund and amount owed\<close>

text \<open>
  Claim C3. For every engine state and every input, \<open>calculate_tax\<close> returns a result in
  which the refund is 0 or the amount owed is 0.
\<close>

theorem refund_owed_exclusive:
  "\<exists>r. calculate_tax self d = Some r \<and> (refund r = 0 \<or> amount_owed r = 0)"
proof -
  obtain tax where
    "calculate_tax_brackets (max 0 (get_or (wages d) 0 - deduction (filing_status self)))
       TAX_BRACKETS_HOH = Some tax"
    using taxable_tax_exists by blast
  then show ?thesis
    using refund_and_owed_exclusive by (simp add: calculate_tax_unfold) 
qed


subsection \<open>The child tax credit\<close>

text \<open>
  Claim C4. For a tax before credits \<open>tax \<ge> 0\<close> and \<open>n \<ge> 0\<close> dependents, the non-refundable
  part is \<open>min (2000 * n) tax\<close>, the additional part is the smaller of what remains of
  \<open>2000 * n\<close> and \<open>1600 * n\<close>, and the two parts together are at most \<open>2000 * n\<close>.
\<close>

theorem child_credit_cap:
  assumes "0 \<le> tax" and "0 \<le> n"
  shows "nonrefundable_child_credit tax n = min (2000 * of_int n) tax
       \<and> additional_child_credit tax n =
           min (2000 * of_int n - nonrefundable_child_credit tax n) (1600 * of_int n)
       \<and> nonrefundable_child_credit tax n + additional_child_credit tax n \<le> 2000 * of_int n"
  by (simp add: nonrefundable_child_credit_def additional_child_credit_def
      remaining_child_credit_def total_child_credit_def CHILD_TAX_CREDIT_def
      ADDITIONAL_CHILD_TAX_CREDIT_MAX_def)

theorem child_credit_cap_witness:
  "(0::rat) \<le> 436.30 \<and> (0::int) \<le> 1
   \<and> nonrefundable_child_credit 436.30 1 = min (2000 * of_int 1) 436.30
   \<and> additional_child_credit 436.30 1 =
           min (2000 * of_int 1 - nonrefundable_child_credit 436.30 1) (1600 * of_int 1)
   \<and> nonrefundable_child_credit 436.30 1 + additional_child_credit 436.30 1 \<le> 2000 * of_int 1"
  using child_credit_cap [of "436.30" 1] by simp


subsection \<open>Non-negative amounts\<close>

text \<open>
  Claim C6. When the amounts and the number of dependents of the input are not negative,
  \<open>calculate_tax\<close> returns a result whose taxable income, tax before credits, refund and
  amount owed are not negative, and neither are the non-refundable child credit, the
  additional child credit and the earned income credit it was computed from; every line
  of the form, which holds these amounts rounded, is not negative either.
\<close>

theorem results_nonneg:
  assumes "0 \<le> get_or (wages d) 0"
    and "0 \<le> get_or (federal_tax_withheld d) 0"
    and "0 \<le> get_or (interest_income d) 0"
    and "0 \<le> get_or (dividends d) 0"
    and "0 \<le> get_or (daycare_expenses d) 0"
    and "0 \<le> get_or (dependent_count d) 0"
  shows "\<exists>r. calculate_tax self d = Some r
       \<and> 0 \<le> taxable_income r
       \<and> 0 \<le> tax_amount r
       \<and> 0 \<le> nonrefundable_child_credit (tax_amount r) (get_or (dependent_count d) 0)
       \<and> 0 \<le> additional_child_credit (tax_amount r) (get_or (dependent_count d) 0)
       \<and> 0 \<le> calculate_eitc (get_or (wages d) 0) (get_or (dependent_count d) 0)
       \<and> 0 \<le> refund r
       \<and> 0 \<le> amount_owed r
       \<and> list_all (\<lambda>(k, v). 0 \<le> v) (form_1040_lines r)"
proof -
  let ?n = "get_or (dependent_count d) 0"
  let ?w = "get_or (wages d) 0"
  obtain tax where
    tax: "calculate_tax_brackets (max 0 (?w - deduction (filing_status self)))
       TAX_BRACKETS_HOH = Some tax" and t0: "0 \<le> tax"
    using taxable_tax_exists by blast
  have n0: "0 \<le> nonrefundable_child_credit tax ?n"
    using t0 assms(6) by (rule nonrefundable_nonneg)
  have a0: "0 \<le> additional_child_credit tax ?n"
    using assms(6) by (rule additional_nonneg)
  have e0: "0 \<le> calculate_eitc ?w ?n"
    by (rule calculate_eitc_nonneg)
  have c0: "0 \<le> additional_child_credit tax ?n + calculate_eitc ?w ?n
               + get_or (federal_tax_withheld d) 0"
    using a0 e0 assms(2) by simp
  have ro: "0 \<le> fst (refund_and_owed (max 0 (tax - nonrefundable_child_credit tax ?n))
                 (additional_child_credit tax ?n + calculate_eitc ?w ?n
                   + get_or (federal_tax_withheld d) 0))
          \<and> 0 \<le> snd (refund_and_owed (max 0 (tax - nonrefundable_child_credit tax ?n))
                 (additional_child_credit tax ?n + calculate_eitc ?w ?n
                   + get_or (federal_tax_withheld d) 0))"
    using c0 by (intro refund_and_owed_nonneg) simp_all
  have c1: "0 \<le> get_or (federal_tax_withheld d) 0 + additional_child_credit tax ?n
               + calculate_eitc ?w ?n"
    using c0 by simp
  show ?thesis
    using t0 n0 a0 e0 ro c1 assms
    by (simp add: calculate_tax_unfold [OF tax] round2_nonneg deduction_nonneg)
qed


theorem results_nonneg_witness:
  "0 \<le> get_or (wages whitney) 0
   \<and> 0 \<le> get_or (federal_tax_withheld whitney) 0
   \<and> 0 \<le> get_or (interest_income whitney) 0
   \<and> 0 \<le> get_or (dividends whitney) 0
   \<and> 0 \<le> get_or (daycare_expenses whitney) 0
   \<and> 0 \<le> get_or (dependent_count whitney) 0
   \<and> (\<exists>r. calculate_tax hoh_engine whitney = Some r
       \<and> 0 \<le> taxable_income r
       \<and> 0 \<le> tax_amount r
       \<and> 0 \<le> nonrefundable_child_credit (tax_amount r) (get_or (dependent_count whitney) 0)
       \<and> 0 \<le> additional_child_credit (tax_amount r) (get_or (dependent_count whitney) 0)
       \<and> 0 \<le> calculate_eitc (get_or (wages whitney) 0) (get_or (dependent_count whitney) 0)
       \<and> 0 \<le> refund r
       \<and> 0 \<le> amount_owed r
       \<and> list_all (\<lambda>(k, v). 0 \<le> v) (form_1040_lines r))"
proof -
  have h1: "0 \<le> get_or (wages whitney) 0"
    and h2: "0 \<le> get_or (federal_tax_withheld whitney) 0"
    and h3: "0 \<le> get_or (interest_income whitney) 0"
    and h4: "0 \<le> get_or (dividends whitney) 0"
    and h5: "0 \<le> get_or (daycare_expenses whitney) 0"
    and h6: "0 \<le> get_or (dependent_count whitney) 0"
    by (simp_all add: whitney_def get_or_def)
  show ?thesis
    using h1 h2 h3 h4 h5 h6 results_nonneg [OF h1 h2 h3 h4 h5 h6, of hoh_engine]
    by blast
qed

subsection \<open>The earned income credit\<close>





subsection \<open>One bracket schedule for every filing status\<close>

text \<open>
  Claim C8. Whatever the filing status, the tax before credits in the result is
  \<open>calculate_tax_brackets\<close> applied to the taxable income with the table
  \<open>TAX_BRACKETS_HOH\<close>; the status enters only through the standard deduction that is taken
  off the wages.
\<close>

theorem hoh_schedule_for_every_status:
  "\<exists>r. calculate_tax self d = Some r
      \<and> standard_deduction r = deduction (filing_status self)
      \<and> taxable_income r = max 0 (get_or (wages d) 0 - deduction (filing_status self))
      \<and> calculate_tax_brackets (taxable_income r) TAX_BRACKETS_HOH = Some (tax_amount r)"
proof -
  obtain tax where
    tax: "calculate_tax_brackets (max 0 (get_or (wages d) 0 - deduction (filing_status self)))
       TAX_BRACKETS_HOH = Some tax"
    using taxable_tax_exists by blast
  then show ?thesis
    by (simp add: calculate_tax_unfold)
qed

text \<open>
  Two filing statuses with the same deduction, such as single and married filing
  separately, give the same result but for the status it repeats.
\<close>

lemma status_only_through_deduction:
  assumes "deduction (filing_status self1) = deduction (filing_status self2)"
  shows "\<exists>r. calculate_tax self2 d = Some r
           \<and> calculate_tax self1 d = Some (r\<lparr>result_filing_status := filing_status self1\<rparr>)"
proof -
  obtain tax where
    tax: "calculate_tax_brackets (max 0 (get_or (wages d) 0 - deduction (filing_status self2)))
       TAX_BRACKETS_HOH = Some tax"
    using taxable_tax_exists by blast
  then have tax1:
    "calculate_tax_brackets (max 0 (get_or (wages d) 0 - deduction (filing_status self1)))
       TAX_BRACKETS_HOH = Some tax"
    using assms by simp
  show ?thesis
    unfolding calculate_tax_unfold [OF tax] calculate_tax_unfold [OF tax1]
    by (simp add: assms)
qed

subsection \<open>Daycare expenses are never read\<close>

text \<open>
  Claim C9. Two runs with the same filing status, on inputs that agree on every key but
  \<^verbatim>\<open>daycare_expenses\<close>, give the same result, form lines included; so do two runs on the
  same input.
\<close>

theorem daycare_is_dead_input:
  assumes "filing_status self1 = filing_status self2"
    and "wages d1 = wages d2"
    and "federal_tax_withheld d1 = federal_tax_withheld d2"
    and "dependent_count d1 = dependent_count d2"
    and "interest_income d1 = interest_income d2"
    and "dividends d1 = dividends d2"
  shows "calculate_tax self1 d1 = calculate_tax self2 d2"
  unfolding calculate_tax_def assms ..

theorem daycare_is_dead_input_witness:
  "daycare_expenses whitney_daycare \<noteq> daycare_expenses whitney
   \<and> calculate_tax hoh_engine whitney_daycare = calculate_tax hoh_engine whitney"
proof -
  have "calculate_tax hoh_engine whitney_daycare = calculate_tax hoh_engine whitney"
    by (rule daycare_is_dead_input) (simp_all add: whitney_daycare_def)
  then show ?thesis
    by (simp add: whitney_daycare_def whitney_def)
qed

subsection \<open>The keys of the form\<close>

text \<open>
  Claim C10. For every input the form lines of the result have exactly the sixteen keys
  1, 2b, 3b, 7, 11, 12, 15, 16, 19, 24, 25a, 27, 28, 31, 34 and 37, each once; the keys 34
  and 37 are both there, and the amount of one of them is 0.
\<close>

theorem form_lines_keys:
  "\<exists>r. calculate_tax self d = Some r
      \<and> map fst (form_1040_lines r) =
          [''1'', ''2b'', ''3b'', ''7'', ''11'', ''12'', ''15'', ''16'', ''19'', ''27'', ''28'',
           ''24'', ''25a'', ''31'', ''34'', ''37'']
      \<and> fst ` set (form_1040_lines r) =
          {''1'', ''2b'', ''3b'', ''7'', ''11'', ''12'', ''15'', ''16'', ''19'', ''24'', ''25a'',
           ''27'', ''28'', ''31'', ''34'', ''37''}
      \<and> (\<exists>v34 v37. map_of (form_1040_lines r) ''34'' = Some v34
            \<and> map_of (form_1040_lines r) ''37'' = Some v37
            \<and> (v34 = 0 \<or> v37 = 0))"
proof -
  obtain tax where
    tax: "calculate_tax_brackets (max 0 (get_or (wages d) 0 - deduction (filing_status self)))
       TAX_BRACKETS_HOH = Some tax"
    using taxable_tax_exists by blast
  show ?thesis
    unfolding calculate_tax_unfold [OF tax]
    by (simp add: insert_commute)
qed

subsection \<open>No input is rejected\<close>




end
